theory Spec2Isabelle
  imports Main "HOL-Library.Char_ord" "HOL-Library.List_Lexorder"
begin

section \<open>Data model (pkg/types.go)\<close>

text \<open>
  The Docker API records decoded from \<^verbatim>\<open>GET /containers/json\<close> and the
  engine's per-service status. Go's \<^verbatim>\<open>int\<close> fields are never used in
  arithmetic, so they are modelled as \<^typ>\<open>int\<close>; Go strings are byte strings.
\<close>

record Port =
  IP :: string
  PrivatePort :: int
  PublicPort :: int
  Type :: string

record Container =
  ID :: string
  Names :: "string list"
  State :: string
  Status :: string
  Ports :: "Port list"

record ServiceStatus =
  Name :: string
  ExposedPorts :: "string list"
  HealthStatus :: string
  ForwardStatus :: string
  LocalPorts :: "string list"
  Conflicts :: "string list"

text \<open>Forward status constants.\<close>

definition StatusNotForwarded :: string where "StatusNotForwarded = ''Not forwarded''"
definition StatusForwarded :: string where "StatusForwarded = ''Forwarded''"
definition StatusReady :: string where "StatusReady = ''Ready''"
definition StatusError :: string where "StatusError = ''Error''"
definition StatusConflict :: string where "StatusConflict = ''Conflict''"

lemmas status_defs =
  StatusNotForwarded_def StatusForwarded_def StatusReady_def StatusError_def StatusConflict_def

text \<open>Health status constants.\<close>

definition HealthHealthy :: string where "HealthHealthy = ''Healthy''"
definition HealthUnhealthy :: string where "HealthUnhealthy = ''Unhealthy''"
definition HealthStarting :: string where "HealthStarting = ''Starting''"
definition HealthRunning :: string where "HealthRunning = ''Running''"
definition HealthRestarting :: string where "HealthRestarting = ''Restarting''"
definition HealthCreated :: string where "HealthCreated = ''Created''"
definition HealthRemoving :: string where "HealthRemoving = ''Removing''"
definition HealthPaused :: string where "HealthPaused = ''Paused''"
definition HealthExited :: string where "HealthExited = ''Exited''"
definition HealthDead :: string where "HealthDead = ''Dead''"
definition HealthUnknown :: string where "HealthUnknown = ''Unknown''"

lemmas health_defs =
  HealthHealthy_def HealthUnhealthy_def HealthStarting_def HealthRunning_def
  HealthRestarting_def HealthCreated_def HealthRemoving_def HealthPaused_def
  HealthExited_def HealthDead_def HealthUnknown_def

section \<open>Library functions the engine calls\<close>

text \<open>
  \<^verbatim>\<open>strconv.Itoa\<close>: the decimal rendering of an integer, with a leading
  minus sign for a negative one.
\<close>

definition digit_char :: "nat \<Rightarrow> char" where
  "digit_char d = ''0123456789'' ! d"

fun utoa :: "nat \<Rightarrow> string" where
  "utoa n = (if n < 10 then [digit_char n] else utoa (n div 10) @ [digit_char (n mod 10)])"

declare utoa.simps [simp del]

definition Itoa :: "int \<Rightarrow> string" where
  "Itoa i = (if i < 0 then CHR ''-'' # utoa (nat (- i)) else utoa (nat i))"

text \<open>
  \<^verbatim>\<open>strings.HasPrefix\<close>, \<^verbatim>\<open>strings.Contains\<close> and
  \<^verbatim>\<open>strings.TrimPrefix\<close> on byte strings.
\<close>

fun HasPrefix :: "string \<Rightarrow> string \<Rightarrow> bool" where
  "HasPrefix s [] = True"
| "HasPrefix [] (p # ps) = False"
| "HasPrefix (c # cs) (p # ps) = (c = p \<and> HasPrefix cs ps)"

fun Contains :: "string \<Rightarrow> string \<Rightarrow> bool" where
  "Contains [] substr = HasPrefix [] substr"
| "Contains (c # cs) substr = (HasPrefix (c # cs) substr \<or> Contains cs substr)"

definition TrimPrefix :: "string \<Rightarrow> string \<Rightarrow> string" where
  "TrimPrefix s prefix = (if HasPrefix s prefix then drop (length prefix) s else s)"

text \<open>
  \<^verbatim>\<open>sort.Strings\<close> sorts in increasing byte-wise lexicographic order, which is
  the order of \<^typ>\<open>string\<close> given by the character order and the lexicographic
  order on lists.
\<close>

definition sort_Strings :: "string list \<Rightarrow> string list" where
  "sort_Strings xs = sort xs"

section \<open>Service discovery (DockerClient.extractPorts, parseContainerState)\<close>

text \<open>
  \<^verbatim>\<open>extractPorts\<close> first fills a \<^verbatim>\<open>map[string]bool\<close> with the
  decimal string of every non-zero public port. Only the key set of that map is
  used, so the map is modelled by its list of distinct keys; the iteration order of
  a Go map is unspecified, and the keys are sorted with
  \<^verbatim>\<open>sort.Strings\<close> before they are returned.
\<close>

fun portMap_keys :: "Port list \<Rightarrow> string list \<Rightarrow> string list" where
  "portMap_keys [] ks = ks"
| "portMap_keys (port # rest) ks =
     (if PublicPort port \<noteq> 0
      then portMap_keys rest (List.insert (Itoa (PublicPort port)) ks)
      else portMap_keys rest ks)"

definition extractPorts :: "Port list \<Rightarrow> string list" where
  "extractPorts ps = sort_Strings (portMap_keys ps [])"

definition parseContainerState :: "string \<Rightarrow> string \<Rightarrow> string" where
  "parseContainerState state status =
     (if state = ''running'' then
        (if Contains status ''healthy'' then HealthHealthy
         else if Contains status ''unhealthy'' then HealthUnhealthy
         else HealthRunning)
      else if state = ''created'' then HealthCreated
      else if state = ''restarting'' then HealthRestarting
      else if state = ''removing'' then HealthRemoving
      else if state = ''paused'' then HealthPaused
      else if state = ''exited'' then HealthExited
      else if state = ''dead'' then HealthDead
      else HealthUnknown)"

section \<open>Tunnel registry (pkg/ssh.go)\<close>

text \<open>
  The registry is the \<^verbatim>\<open>ports\<close> table of the SSH client: remote port to
  the local port it is forwarded to. The connection handle and the mutex carry no
  data the operations below read.
\<close>

record SSHClient =
  user :: string
  host :: string
  ports :: "string \<rightharpoonup> string"

text \<open>
  What an operation does to the outside world: \<^verbatim>\<open>kill pid\<close>, and the start
  of a background task that runs
  \<^verbatim>\<open>ssh -L local:localhost:remote user@host -N\<close> for a remote and a local
  port.
\<close>

datatype effect = Kill string | Spawn string string

datatype error =
  QueryFailed
| DecodeFailed
| LocalPortsFailed
| Wrapped string error

text \<open>
  \<^verbatim>\<open>ForwardPort\<close>. The first argument is the environment's answer to
  \<^verbatim>\<open>lsof -ti :remotePort\<close>: \<open>None\<close> when the command fails (it exits
  with status 1 when nothing matches), otherwise its output with surrounding
  white space trimmed. The function has no path that returns an error.
\<close>

definition ForwardPort ::
  "(string \<Rightarrow> string option) \<Rightarrow> string \<Rightarrow> string \<Rightarrow> SSHClient
     \<Rightarrow> error option \<times> SSHClient \<times> effect list" where
  "ForwardPort lsof remotePort localPort0 s =
     (let localPort = (if localPort0 = [] then remotePort else localPort0) in
      case ports s remotePort of
        Some mappedPort \<Rightarrow>
          if mappedPort = localPort then (None, s, [])
          else
            (None,
             s\<lparr>ports := ((ports s)(remotePort := None))(remotePort \<mapsto> localPort)\<rparr>,
             (case lsof remotePort of
                Some pid \<Rightarrow> if pid \<noteq> [] then [Kill pid] else []
              | None \<Rightarrow> [])
             @ [Spawn remotePort localPort])
      | None \<Rightarrow>
          (None, s\<lparr>ports := (ports s)(remotePort \<mapsto> localPort)\<rparr>,
           [Spawn remotePort localPort]))"

text \<open>
  The background task started by \<^verbatim>\<open>ForwardPort\<close>: it runs the forwarding
  process, and when the process ends it looks at how. The list holds the results
  of the successive runs that have ended so far.
\<close>

datatype run_result = ExitOK | ExitError

datatype task_state = Running | Returned

fun session_task :: "string \<Rightarrow> run_result list \<Rightarrow> SSHClient \<Rightarrow> task_state \<times> SSHClient" where
  "session_task remotePort [] s = (Running, s)"
| "session_task remotePort (ExitOK # rs) s = session_task remotePort rs s"
| "session_task remotePort (ExitError # rs) s =
     (Returned, s\<lparr>ports := (ports s)(remotePort := None)\<rparr>)"

fun IsPortInUse :: "string \<Rightarrow> string list \<Rightarrow> bool" where
  "IsPortInUse port [] = False"
| "IsPortInUse port (p # ps) = (if p = port then True else IsPortInUse port ps)"

section \<open>State synchronizer (DockerClient)\<close>

record DockerClient =
  sshClient :: SSHClient
  apiPort :: int
  services :: "string \<rightharpoonup> ServiceStatus"
  portMappings :: "string \<rightharpoonup> (string \<rightharpoonup> string)"

definition NewDockerClient :: "SSHClient \<Rightarrow> int \<Rightarrow> DockerClient" where
  "NewDockerClient ssh port =
     \<lparr>sshClient = ssh, apiPort = port, services = Map.empty, portMappings = Map.empty\<rparr>"

datatype log_line =
  LogForwardPorts string error
| LogFetchServices error
| LogLocalPorts error
| LogPortInUse string
| LogUpdatePortStatus error
| LogForwardRemapped error

text \<open>
  \<^verbatim>\<open>forwardPorts\<close>: one \<^verbatim>\<open>ForwardPort(port, port)\<close> per exposed port, in
  order; the first error sets the status to Error and returns, and after the loop
  the status is set to Forwarded.
\<close>

fun forwardPorts_loop ::
  "(string \<Rightarrow> string option) \<Rightarrow> string list \<Rightarrow> ServiceStatus \<Rightarrow> SSHClient \<Rightarrow> effect list
     \<Rightarrow> error option \<times> ServiceStatus \<times> SSHClient \<times> effect list" where
  "forwardPorts_loop lsof [] service s effs =
     (None, service\<lparr>ForwardStatus := StatusForwarded\<rparr>, s, effs)"
| "forwardPorts_loop lsof (port # rest) service s effs =
     (case ForwardPort lsof port port s of
        (Some err, s', es) \<Rightarrow>
          (Some (Wrapped (''failed to forward port '' @ port) err),
           service\<lparr>ForwardStatus := StatusError\<rparr>, s', effs @ es)
      | (None, s', es) \<Rightarrow> forwardPorts_loop lsof rest service s' (effs @ es))"

definition forwardPorts ::
  "(string \<Rightarrow> string option) \<Rightarrow> ServiceStatus \<Rightarrow> SSHClient
     \<Rightarrow> error option \<times> ServiceStatus \<times> SSHClient \<times> effect list" where
  "forwardPorts lsof service s = forwardPorts_loop lsof (ExposedPorts service) service s []"

text \<open>
  \<^verbatim>\<open>GetServices\<close>. The response is what \<^verbatim>\<open>http.Get\<close> and the JSON
  decoder give: a transport error, a decode error, or the decoded records.
  Indexing \<^verbatim>\<open>container.Names[0]\<close> on an empty slice panics.
\<close>

datatype response = GetFailed | BadBody | Body "Container list"

datatype 'a outcome = Panic | Return 'a

fun GetServices_loop ::
  "(string \<Rightarrow> string option) \<Rightarrow> Container list \<Rightarrow> (string \<rightharpoonup> ServiceStatus) \<Rightarrow> SSHClient
     \<Rightarrow> effect list \<Rightarrow> log_line list
     \<Rightarrow> ((string \<rightharpoonup> ServiceStatus) \<times> SSHClient \<times> effect list \<times> log_line list) outcome" where
  "GetServices_loop lsof [] svcs s effs logs = Return (svcs, s, effs, logs)"
| "GetServices_loop lsof (container # rest) svcs s effs logs =
     (case Names container of
        [] \<Rightarrow> Panic
      | first # _ \<Rightarrow>
          (let name = TrimPrefix first ''/'';
               service = \<lparr>Name = name,
                          ExposedPorts = extractPorts (Ports container),
                          HealthStatus = parseContainerState (State container) (Status container),
                          ForwardStatus = StatusNotForwarded,
                          LocalPorts = [],
                          Conflicts = []\<rparr>
           in case forwardPorts lsof service s of
                (err, service', s', es) \<Rightarrow>
                  GetServices_loop lsof rest (svcs(name \<mapsto> service')) s' (effs @ es)
                    (logs @ (case err of Some e \<Rightarrow> [LogForwardPorts name e] | None \<Rightarrow> []))))"

definition GetServices ::
  "(string \<Rightarrow> string option) \<Rightarrow> response \<Rightarrow> DockerClient
     \<Rightarrow> ((error + (string \<rightharpoonup> ServiceStatus)) \<times> DockerClient \<times> effect list \<times> log_line list) outcome" where
  "GetServices lsof resp d =
     (case resp of
        GetFailed \<Rightarrow> Return (Inl (Wrapped ''failed to query Docker API'' QueryFailed), d, [], [])
      | BadBody \<Rightarrow> Return (Inl (Wrapped ''failed to decode Docker API response'' DecodeFailed), d, [], [])
      | Body containers \<Rightarrow>
          (case GetServices_loop lsof containers Map.empty (sshClient d) [] [] of
             Panic \<Rightarrow> Panic
           | Return (svcs, s', effs, logs) \<Rightarrow> Return (Inr svcs, d\<lparr>sshClient := s'\<rparr>, effs, logs)))"

definition UpdateServices :: "DockerClient \<Rightarrow> (string \<rightharpoonup> ServiceStatus) \<Rightarrow> DockerClient" where
  "UpdateServices d svcs = d\<lparr>services := svcs\<rparr>"

text \<open>
  One tick of the poll loop, \<^verbatim>\<open>LandingScreen.updateServices\<close>: fetch, and on
  success store the new map; on an error log it and leave everything as it was.
\<close>

definition updateServices ::
  "(string \<Rightarrow> string option) \<Rightarrow> response \<Rightarrow> DockerClient
     \<Rightarrow> (DockerClient \<times> effect list \<times> log_line list) outcome" where
  "updateServices lsof resp d =
     (case GetServices lsof resp d of
        Panic \<Rightarrow> Panic
      | Return (Inl err, d', effs, logs) \<Rightarrow> Return (d', effs, logs @ [LogFetchServices err])
      | Return (Inr svcs, d', effs, logs) \<Rightarrow> Return (UpdateServices d' svcs, effs, logs))"

text \<open>
  \<^verbatim>\<open>UpdateForwardingStatus\<close>. The scan is the result of
  \<^verbatim>\<open>GetLocalInUsePorts\<close>. For each service the conflict map starts empty and
  the status starts as Forwarded; the map is modelled by its list of distinct
  keys, sorted at the end.
\<close>

fun conflict_scan :: "string list \<Rightarrow> string list \<Rightarrow> string list \<Rightarrow> string \<Rightarrow> string list \<times> string" where
  "conflict_scan localPorts [] conflicts status = (conflicts, status)"
| "conflict_scan localPorts (port # rest) conflicts status =
     (if IsPortInUse port localPorts
      then conflict_scan localPorts rest (List.insert port conflicts) StatusConflict
      else if status \<noteq> StatusConflict
      then conflict_scan localPorts rest conflicts StatusReady
      else conflict_scan localPorts rest conflicts status)"

definition update_service :: "string list \<Rightarrow> ServiceStatus \<Rightarrow> ServiceStatus" where
  "update_service localPorts service =
     (case conflict_scan localPorts (ExposedPorts service) [] StatusForwarded of
        (conflicts, status) \<Rightarrow>
          service\<lparr>ForwardStatus := status, Conflicts := sort_Strings conflicts\<rparr>)"

definition UpdateForwardingStatus ::
  "(error + string list) \<Rightarrow> DockerClient \<Rightarrow> error option \<times> DockerClient" where
  "UpdateForwardingStatus scan d =
     (case scan of
        Inl err \<Rightarrow> (Some (Wrapped ''error getting local ports'' err), d)
      | Inr localPorts \<Rightarrow>
          (None, d\<lparr>services := (\<lambda>name. map_option (update_service localPorts) (services d name))\<rparr>))"

text \<open>\<^verbatim>\<open>contains\<close> and \<^verbatim>\<open>removeString\<close> (first occurrence only).\<close>

fun contains :: "string list \<Rightarrow> string \<Rightarrow> bool" where
  "contains [] item = False"
| "contains (s # rest) item = (if s = item then True else contains rest item)"

fun removeString :: "string list \<Rightarrow> string \<Rightarrow> string list" where
  "removeString [] s = []"
| "removeString (v # rest) s = (if v = s then rest else v # removeString rest s)"

text \<open>
  \<^verbatim>\<open>RemapPort\<close> is handed a pointer to a service record and writes through
  it. The record comes with its contents, and \<open>held\<close> says whether it is the
  record that the client's map holds under the record's name or a record that
  the map does not hold. \<^verbatim>\<open>GetServices\<close> stores every record under its own
  name, and the overview screen selects a record of the map that was stored in
  the client; the poll of the detail screen replaces the selected record by one
  of a fresh fetch, which is not stored in the client. A write through the
  pointer shows in the client's map in the first case only. The call returns the
  error, the client and the contents of the record after the call.
\<close>

definition RemapPort ::
  "DockerClient \<Rightarrow> ServiceStatus \<Rightarrow> bool \<Rightarrow> string \<Rightarrow> string
     \<Rightarrow> error option \<times> DockerClient \<times> ServiceStatus" where
  "RemapPort d service held remotePort localPort =
     (let mappings = (case portMappings d (Name service) of
                        None \<Rightarrow> Map.empty
                      | Some m \<Rightarrow> m);
          service' = (if contains (Conflicts service) remotePort
                      then service\<lparr>Conflicts := removeString (Conflicts service) remotePort\<rparr>
                      else service);
          service'' = service'\<lparr>ForwardStatus := StatusReady\<rparr>;
          d' = d\<lparr>portMappings :=
                  (portMappings d)(Name service \<mapsto> mappings(remotePort \<mapsto> localPort)),
                services :=
                  (if held then (services d)(Name service \<mapsto> service'') else services d)\<rparr>
      in (None, d', service''))"

definition GetPortMapping :: "DockerClient \<Rightarrow> string \<Rightarrow> string \<Rightarrow> string" where
  "GetPortMapping d serviceName remotePort =
     (case portMappings d serviceName of
        Some mappings \<Rightarrow>
          (case mappings remotePort of
             Some localPort \<Rightarrow> localPort
           | None \<Rightarrow> remotePort)
      | None \<Rightarrow> remotePort)"

section \<open>Forwarding a service's ports with a port map (SSHClient.ForwardPorts)\<close>

text \<open>
  \<^verbatim>\<open>strconv.Atoi\<close>: an optional sign, then one or more decimal digits; the
  value has to fit the 64-bit \<^verbatim>\<open>int\<close>. \<^verbatim>\<open>strings.Split\<close> is used
  with a one-byte separator only.
\<close>

definition is_digit :: "char \<Rightarrow> bool" where
  "is_digit c = (CHR ''0'' \<le> c \<and> c \<le> CHR ''9'')"

definition digit_val :: "char \<Rightarrow> nat" where
  "digit_val c = of_char c - of_char CHR ''0''"

definition Atoi :: "string \<Rightarrow> int option" where
  "Atoi s =
     (let neg = (case s of c # _ \<Rightarrow> c = CHR ''-'' | [] \<Rightarrow> False);
          ds = (case s of c # r \<Rightarrow> if c = CHR ''-'' \<or> c = CHR ''+'' then r else s | [] \<Rightarrow> s)
      in if ds = [] \<or> \<not> list_all is_digit ds then None
         else (let n = int (foldl (\<lambda>a c. 10 * a + digit_val c) 0 ds);
                   v = (if neg then - n else n)
               in if - (2 ^ 63) \<le> v \<and> v < 2 ^ 63 then Some v else None))"

fun Split :: "string \<Rightarrow> char \<Rightarrow> string list" where
  "Split [] sep = [[]]"
| "Split (c # cs) sep =
     (if c = sep then [] # Split cs sep
      else (case Split cs sep of [] \<Rightarrow> [[c]] | h # t \<Rightarrow> (c # h) # t))"

text \<open>
  The loop \<^verbatim>\<open>for i := start; i <= end; i++\<close> over a port range. A missing
  key of the port map reads as the empty string.
\<close>

function range_loop ::
  "(string \<Rightarrow> string option) \<Rightarrow> (string \<rightharpoonup> string) \<Rightarrow> int \<Rightarrow> int \<Rightarrow> SSHClient \<Rightarrow> effect list
     \<Rightarrow> error option \<times> SSHClient \<times> effect list" where
  "range_loop lsof portMap i endp s effs =
     (if i \<le> endp then
        (let portStr = Itoa i;
             localPort = (case portMap portStr of Some l \<Rightarrow> l | None \<Rightarrow> [])
         in case ForwardPort lsof portStr localPort s of
              (Some err, s', es) \<Rightarrow>
                (Some (Wrapped (''error forwarding port '' @ portStr @ '' -> '' @ localPort) err),
                 s', effs @ es)
            | (None, s', es) \<Rightarrow> range_loop lsof portMap (i + 1) endp s' (effs @ es))
      else (None, s, effs))"
  by pat_completeness auto
termination
  by (relation "measure (\<lambda>(lsof, portMap, i, endp, s, effs). nat (endp + 1 - i))") auto

declare range_loop.simps [simp del]

text \<open>
  \<^verbatim>\<open>ForwardPorts\<close>. \<open>None\<close> is a call that does not return: with a range
  whose end is the largest \<^verbatim>\<open>int\<close>, \<^verbatim>\<open>i <= end\<close> holds for every
  \<^verbatim>\<open>i\<close> and \<^verbatim>\<open>i++\<close> wraps around.
\<close>

fun ForwardPorts_loop ::
  "(string \<Rightarrow> string option) \<Rightarrow> (string \<rightharpoonup> string) \<Rightarrow> string list \<Rightarrow> SSHClient \<Rightarrow> effect list
     \<Rightarrow> (error option \<times> SSHClient \<times> effect list) option" where
  "ForwardPorts_loop lsof portMap [] s effs = Some (None, s, effs)"
| "ForwardPorts_loop lsof portMap (remotePort # rest) s effs =
     (if Contains remotePort ''-'' then
        (let portRange = Split remotePort CHR ''-'' in
         if length portRange \<noteq> 2 then ForwardPorts_loop lsof portMap rest s effs
         else
           (case Atoi (portRange ! 0) of
              None \<Rightarrow> ForwardPorts_loop lsof portMap rest s effs
            | Some start \<Rightarrow>
                (case Atoi (portRange ! 1) of
                   None \<Rightarrow> ForwardPorts_loop lsof portMap rest s effs
                 | Some endp \<Rightarrow>
                     if endp = 2 ^ 63 - 1 then None
                     else
                       (case range_loop lsof portMap start endp s effs of
                          (Some err, s', effs') \<Rightarrow> Some (Some err, s', effs')
                        | (None, s', effs') \<Rightarrow> ForwardPorts_loop lsof portMap rest s' effs'))))
      else
        (let localPort = (case portMap remotePort of Some l \<Rightarrow> l | None \<Rightarrow> [])
         in case ForwardPort lsof remotePort localPort s of
              (Some err, s', es) \<Rightarrow>
                Some (Some (Wrapped (''error forwarding port '' @ remotePort @ '' -> '' @ localPort) err),
                      s', effs @ es)
            | (None, s', es) \<Rightarrow> ForwardPorts_loop lsof portMap rest s' (effs @ es)))"

definition ForwardPorts ::
  "(string \<Rightarrow> string option) \<Rightarrow> ServiceStatus \<Rightarrow> (string \<rightharpoonup> string) \<Rightarrow> SSHClient
     \<Rightarrow> (error option \<times> SSHClient \<times> effect list) option" where
  "ForwardPorts lsof service portMap s =
     ForwardPorts_loop lsof portMap (ExposedPorts service) s []"

section \<open>The remap action of the detail screen (DisplayManager.handleRemapPort)\<close>

record DisplayManager =
  docker :: DockerClient
  selectedService :: ServiceStatus
  selectedHeld :: bool

text \<open>
  The selected service is a pointer: \<open>selectedHeld\<close> says whether the selected
  record is the one the client's map holds under its name.
  The scan is the result of \<^verbatim>\<open>GetLocalInUsePorts\<close>. The check of the new
  local port against the scan is made here, before \<^verbatim>\<open>RemapPort\<close> is called.
\<close>

definition handleRemapPort ::
  "(error + string list) \<Rightarrow> (string \<Rightarrow> string option) \<Rightarrow> DisplayManager \<Rightarrow> string \<Rightarrow> string
     \<Rightarrow> (DisplayManager \<times> effect list \<times> log_line list) option" where
  "handleRemapPort scan lsof dm port newPort =
     (case scan of
        Inl err \<Rightarrow> Some (dm, [], [LogLocalPorts err])
      | Inr localPorts \<Rightarrow>
          if IsPortInUse newPort localPorts then Some (dm, [], [LogPortInUse newPort])
          else
            (case RemapPort (docker dm) (selectedService dm) (selectedHeld dm) port newPort of
               (Some err, d', service') \<Rightarrow>
                 Some (dm\<lparr>docker := d', selectedService := service'\<rparr>, [], [LogUpdatePortStatus err])
             | (None, d', service') \<Rightarrow>
                 (case ForwardPorts lsof service' [port \<mapsto> newPort] (sshClient d') of
                    None \<Rightarrow> None
                  | Some (err, s', effs) \<Rightarrow>
                      Some (dm\<lparr>docker := d'\<lparr>sshClient := s'\<rparr>, selectedService := service'\<rparr>,
                            effs,
                            (case err of Some e \<Rightarrow> [LogForwardRemapped e] | None \<Rightarrow> [])))))"

section \<open>The specification's wording, for comparison\<close>

text \<open>
  The exposed ports as the specification words them: the non-zero public ports,
  deduplicated, in ascending numerical order.
\<close>

definition numerically_sorted_ports :: "Port list \<Rightarrow> string list" where
  "numerically_sorted_ports ps =
     map Itoa (sort (remdups (filter (\<lambda>n. n \<noteq> 0) (map PublicPort ps))))"

text \<open>
  The conflict set as the specification words it: a remote port is in conflict
  when its local mapping is among the listening ports and that listener is not
  one of the engine's own sessions (a local port of the registry).
\<close>

definition spec_ComputeConflicts :: "DockerClient \<Rightarrow> ServiceStatus \<Rightarrow> string list \<Rightarrow> string set" where
  "spec_ComputeConflicts d service localPorts =
     {r. r \<in> set (ExposedPorts service) \<and>
         GetPortMapping d (Name service) r \<in> set localPorts \<and>
         GetPortMapping d (Name service) r \<notin> ran (ports (sshClient d))}"

text \<open>A sequence of \<^verbatim>\<open>RemapPort\<close> calls on one client.\<close>

fun RemapPort_seq ::
  "DockerClient \<Rightarrow> (ServiceStatus \<times> bool \<times> string \<times> string) list \<Rightarrow> DockerClient" where
  "RemapPort_seq d [] = d"
| "RemapPort_seq d ((service, held, remotePort, localPort) # calls) =
     RemapPort_seq (fst (snd (RemapPort d service held remotePort localPort))) calls"

section \<open>The service records of the engine\<close>

text \<open>
  The code builds a service record in one place, the loop of
  \<^verbatim>\<open>GetServices\<close>, and writes to its status and conflict list in two more,
  the conflict scan and \<^verbatim>\<open>RemapPort\<close>. These are the records a service can
  be.
\<close>

inductive engine_record :: "ServiceStatus \<Rightarrow> bool" where
  fetched:
    "GetServices lsof resp d = Return (Inr svcs, d', effs, logs) \<Longrightarrow> svcs name = Some sv
       \<Longrightarrow> engine_record sv"
| scanned:
    "engine_record sv \<Longrightarrow> engine_record (update_service localPorts sv)"
| remapped:
    "engine_record sv
       \<Longrightarrow> engine_record (snd (snd (RemapPort d sv held remotePort localPort)))"

section \<open>Example inputs\<close>

text \<open>A fresh registry and client, and an environment in which lsof finds nothing.\<close>

definition example_ssh :: SSHClient where
  "example_ssh = \<lparr>user = ''dev'', host = ''remote:22'', ports = Map.empty\<rparr>"

definition example_client :: DockerClient where
  "example_client = NewDockerClient example_ssh 40000"

definition no_lsof :: "string \<Rightarrow> string option" where
  "no_lsof port = None"

text \<open>
  The conflict scenario: the registry forwards the remote port 8080 to the local
  port 8080, and the service web exposes 8080 and 9090.
\<close>

definition conflict_web :: ServiceStatus where
  "conflict_web =
     \<lparr>Name = ''web'', ExposedPorts = [''8080'', ''9090''], HealthStatus = ''Running'',
      ForwardStatus = ''Forwarded'', LocalPorts = [], Conflicts = []\<rparr>"

definition conflict_client :: DockerClient where
  "conflict_client =
     \<lparr>sshClient = \<lparr>user = ''dev'', host = ''remote:22'', ports = [''8080'' \<mapsto> ''8080'']\<rparr>,
      apiPort = 40000,
      services = [''web'' \<mapsto> conflict_web],
      portMappings = Map.empty\<rparr>"

text \<open>The service web with both of its ports in conflict.\<close>

definition example_web :: ServiceStatus where
  "example_web =
     \<lparr>Name = ''web'', ExposedPorts = [''8080'', ''9090''], HealthStatus = ''Running'',
      ForwardStatus = ''Conflict'', LocalPorts = [], Conflicts = [''8080'', ''9090'']\<rparr>"

text \<open>
  The refresh scenario: the daemon lists web, which publishes port 3000, and db,
  which publishes none.
\<close>

definition web_container :: Container where
  "web_container =
     \<lparr>ID = ''1f'', Names = [''/web''], State = ''running'', Status = ''Up'',
      Ports = [\<lparr>IP = ''0.0.0.0'', PrivatePort = 3000, PublicPort = 3000, Type = ''tcp''\<rparr>]\<rparr>"

definition db_container :: Container where
  "db_container =
     \<lparr>ID = ''2a'', Names = [''/db''], State = ''running'', Status = ''Up'', Ports = []\<rparr>"

definition refreshed_web :: ServiceStatus where
  "refreshed_web =
     \<lparr>Name = ''web'', ExposedPorts = [''3000''], HealthStatus = HealthRunning,
      ForwardStatus = StatusForwarded, LocalPorts = [], Conflicts = []\<rparr>"

definition refreshed_db :: ServiceStatus where
  "refreshed_db =
     \<lparr>Name = ''db'', ExposedPorts = [], HealthStatus = HealthRunning,
      ForwardStatus = StatusForwarded, LocalPorts = [], Conflicts = []\<rparr>"

definition refreshed_client :: DockerClient where
  "refreshed_client =
     \<lparr>sshClient = \<lparr>user = ''dev'', host = ''remote:22'', ports = [''3000'' \<mapsto> ''3000'']\<rparr>,
      apiPort = 40000,
      services = [''web'' \<mapsto> refreshed_web, ''db'' \<mapsto> refreshed_db],
      portMappings = Map.empty\<rparr>"

text \<open>
  The refreshed client after a conflict scan that finds a local listener on port
  3000.
\<close>

definition scanned_web :: ServiceStatus where
  "scanned_web = update_service [''3000''] refreshed_web"

definition scanned_client :: DockerClient where
  "scanned_client = snd (UpdateForwardingStatus (Inr [''3000'']) refreshed_client)"

section \<open>Evaluating the decimal rendering\<close>

lemma utoa_small: "n < 10 \<Longrightarrow> utoa n = [digit_char n]"
  by (subst utoa.simps) simp

lemma utoa_numeral [simp]:
  "utoa (numeral k) =
     (if (numeral k :: nat) < 10 then [digit_char (numeral k)]
      else utoa (numeral k div 10) @ [digit_char (numeral k mod 10)])"
  by (rule utoa.simps)

lemma utoa_0 [simp]: "utoa 0 = ''0''"
  by (simp add: utoa_small digit_char_def)

lemma utoa_1 [simp]: "utoa (Suc 0) = ''1''"
  by (simp add: utoa_small digit_char_def)

section \<open>Properties of the library functions\<close>

lemma HasPrefix_append: "HasPrefix s (a @ b) \<Longrightarrow> HasPrefix (drop (length a) s) b"
  by (induction s a rule: HasPrefix.induct) auto

lemma Contains_drop: "Contains (drop n s) b \<Longrightarrow> Contains s b"
proof (induction s arbitrary: n)
  case Nil
  then show ?case by simp
next
  case (Cons c cs)
  show ?case
  proof (cases n)
    case 0
    with Cons.prems show ?thesis by simp
  next
    case (Suc m)
    with Cons.prems have "Contains (drop m cs) b" by simp
    then have "Contains cs b" by (rule Cons.IH)
    then show ?thesis by simp
  qed
qed

lemma HasPrefix_Contains: "HasPrefix s b \<Longrightarrow> Contains s b"
  by (cases s) auto

lemma Contains_suffix: "Contains s (a @ b) \<Longrightarrow> Contains s b"
proof (induction s)
  case Nil
  then show ?case by (cases a; cases b) auto
next
  case (Cons c cs)
  from Cons.prems have "HasPrefix (c # cs) (a @ b) \<or> Contains cs (a @ b)" by simp
  then show ?case
  proof
    assume "HasPrefix (c # cs) (a @ b)"
    then have "HasPrefix (drop (length a) (c # cs)) b" by (rule HasPrefix_append)
    then have "Contains (drop (length a) (c # cs)) b" by (rule HasPrefix_Contains)
    then show ?thesis by (rule Contains_drop)
  next
    assume "Contains cs (a @ b)"
    then have "Contains cs b" by (rule Cons.IH)
    then show ?thesis by simp
  qed
qed

lemma unhealthy_contains_healthy:
  "Contains status ''unhealthy'' \<Longrightarrow> Contains status ''healthy''"
  using Contains_suffix [of status "''un''" "''healthy''"] by simp

lemma IsPortInUse_iff: "IsPortInUse port localPorts \<longleftrightarrow> port \<in> set localPorts"
  by (induction localPorts) auto

lemma contains_iff: "contains xs item \<longleftrightarrow> item \<in> set xs"
  by (induction xs) auto

lemma sort_Strings_order_irrelevant:
  "distinct ks \<Longrightarrow> distinct ks' \<Longrightarrow> set ks' = set ks \<Longrightarrow> sort_Strings ks' = sort_Strings ks"
  unfolding sort_Strings_def
  by (rule sorted_distinct_set_unique) simp_all

section \<open>Service discovery\<close>

lemma set_portMap_keys:
  "set (portMap_keys ps ks) =
     set ks \<union> {Itoa (PublicPort p) | p. p \<in> set ps \<and> PublicPort p \<noteq> 0}"
  by (induction ps arbitrary: ks) auto

lemma distinct_portMap_keys: "distinct ks \<Longrightarrow> distinct (portMap_keys ps ks)"
  by (induction ps arbitrary: ks) auto

section \<open>Forwarding and fetching\<close>

lemma ForwardPort_no_error: "fst (ForwardPort lsof r l s) = None"
  by (simp add: ForwardPort_def Let_def split: option.splits)

lemma forwardPorts_loop_result:
  "forwardPorts_loop lsof ps service s effs = (err, service', s', effs') \<Longrightarrow>
     err = None \<and> service' = service\<lparr>ForwardStatus := StatusForwarded\<rparr>"
proof (induction ps arbitrary: s effs)
  case Nil
  then show ?case by simp
next
  case (Cons p ps)
  obtain e s1 es where fp: "ForwardPort lsof p p s = (e, s1, es)"
    by (cases "ForwardPort lsof p p s") auto
  with ForwardPort_no_error [of lsof p p s] have "e = None" by simp
  with fp Cons.prems have "forwardPorts_loop lsof ps service s1 (effs @ es) = (err, service', s', effs')"
    by simp
  then show ?case by (rule Cons.IH)
qed

lemma forwardPorts_result:
  "forwardPorts lsof service s = (err, service', s', effs') \<Longrightarrow>
     err = None \<and> service' = service\<lparr>ForwardStatus := StatusForwarded\<rparr>"
  unfolding forwardPorts_def by (rule forwardPorts_loop_result)

lemma GetServices_loop_Panic:
  "c \<in> set cs \<Longrightarrow> Names c = [] \<Longrightarrow> GetServices_loop lsof cs svcs s effs logs = Panic"
proof (induction cs arbitrary: svcs s effs logs)
  case Nil
  then show ?case by simp
next
  case (Cons a cs)
  show ?case
  proof (cases "Names a")
    case Nil
    then show ?thesis by simp
  next
    case (Cons n ns)
    with Cons.prems have "c \<in> set cs" by auto
    then have "\<And>svcs s effs logs. GetServices_loop lsof cs svcs s effs logs = Panic"
      using Cons.IH Cons.prems(2) by blast
    with Cons show ?thesis by (simp add: Let_def split: prod.splits)
  qed
qed

lemma GetServices_loop_Return:
  "(\<forall>c \<in> set cs. Names c \<noteq> []) \<Longrightarrow> \<exists>r. GetServices_loop lsof cs svcs s effs logs = Return r"
proof (induction cs arbitrary: svcs s effs logs)
  case Nil
  then show ?case by simp
next
  case (Cons a cs)
  then obtain n ns where "Names a = n # ns" by (cases "Names a") auto
  with Cons show ?case by (simp add: Let_def split: prod.splits)
qed

lemma GetServices_error_only_on_failure:
  "GetServices lsof resp d = Return (Inl err, d', effs, logs) \<Longrightarrow>
     (resp = GetFailed \<or> resp = BadBody) \<and> d' = d \<and> effs = [] \<and> logs = []"
  by (cases resp) (auto simp: GetServices_def split: outcome.splits prod.splits)


section \<open>Remapping\<close>

lemma removeString_removes:
  "distinct xs \<Longrightarrow> s \<notin> set (removeString xs s)"
  by (induction xs) auto

lemma set_removeString_subset: "set (removeString xs s) \<subseteq> set xs"
  by (induction xs) auto

lemma distinct_removeString: "distinct xs \<Longrightarrow> distinct (removeString xs s)"
proof (induction xs)
  case Nil
  then show ?case by simp
next
  case (Cons a xs)
  then show ?case using set_removeString_subset [of xs s] by auto
qed

lemma RemapPort_error: "fst (RemapPort d service held r l) = None"
  by (simp add: RemapPort_def Let_def)

lemma RemapPort_Conflicts:
  "Conflicts (snd (snd (RemapPort d service held r l))) =
     (if contains (Conflicts service) r then removeString (Conflicts service) r
      else Conflicts service)"
  by (simp add: RemapPort_def Let_def)

lemma RemapPort_mapping:
  "GetPortMapping (fst (snd (RemapPort d service held r l))) name r' =
     (if name = Name service \<and> r' = r then l else GetPortMapping d name r')"
  by (simp add: RemapPort_def GetPortMapping_def Let_def split: option.splits)

lemma RemapPort_seq_untouched:
  "(\<forall>c \<in> set calls. (Name (fst c), fst (snd (snd c))) \<noteq> (name, r)) \<Longrightarrow>
     GetPortMapping (RemapPort_seq d calls) name r = GetPortMapping d name r"
proof (induction calls arbitrary: d)
  case Nil
  then show ?case by simp
next
  case (Cons c calls)
  obtain service held r0 l0 where c: "c = (service, held, r0, l0)" by (cases c) auto
  with Cons.prems have ne: "\<not> (name = Name service \<and> r = r0)" by auto
  from Cons.prems have "\<forall>c \<in> set calls. (Name (fst c), fst (snd (snd c))) \<noteq> (name, r)" by simp
  then have "GetPortMapping (RemapPort_seq (fst (snd (RemapPort d service held r0 l0))) calls) name r
      = GetPortMapping (fst (snd (RemapPort d service held r0 l0))) name r"
    by (rule Cons.IH)
  also have "\<dots> = GetPortMapping d name r"
    using ne by (auto simp add: RemapPort_mapping)
  finally show ?case using c by simp
qed

lemma GetPortMapping_New: "GetPortMapping (NewDockerClient ssh p) name r = r"
  by (simp add: GetPortMapping_def NewDockerClient_def)


section \<open>The conflict scan\<close>

lemma set_conflict_scan:
  "set (fst (conflict_scan localPorts ps cs st)) = set cs \<union> {p \<in> set ps. IsPortInUse p localPorts}"
  by (induction ps arbitrary: cs st) auto

lemma distinct_conflict_scan:
  "distinct cs \<Longrightarrow> distinct (fst (conflict_scan localPorts ps cs st))"
  by (induction ps arbitrary: cs st) auto

lemma status_conflict_scan:
  "snd (conflict_scan localPorts ps cs st) =
     (if \<exists>p \<in> set ps. IsPortInUse p localPorts then StatusConflict
      else if ps = [] \<or> st = StatusConflict then st
      else StatusReady)"
proof (induction ps arbitrary: cs st)
  case Nil
  then show ?case by simp
next
  case (Cons p ps)
  show ?case
  proof (cases "IsPortInUse p localPorts")
    case True
    then show ?thesis by (simp add: Cons.IH)
  next
    case False
    then show ?thesis by (simp add: Cons.IH status_defs)
  qed
qed

lemma update_service_alt:
  "update_service localPorts s =
     s\<lparr>ForwardStatus := snd (conflict_scan localPorts (ExposedPorts s) [] StatusForwarded),
       Conflicts := sort_Strings (fst (conflict_scan localPorts (ExposedPorts s) [] StatusForwarded))\<rparr>"
  by (simp add: update_service_def split: prod.splits)

lemma update_service_Conflicts:
  "set (Conflicts (update_service localPorts s)) = {p \<in> set (ExposedPorts s). IsPortInUse p localPorts}"
  "distinct (Conflicts (update_service localPorts s))"
  "sorted (Conflicts (update_service localPorts s))"
  by (simp_all add: update_service_alt sort_Strings_def set_conflict_scan distinct_conflict_scan)

lemma update_service_ForwardStatus:
  "ForwardStatus (update_service localPorts s) =
     (if \<exists>p \<in> set (ExposedPorts s). IsPortInUse p localPorts then StatusConflict
      else if ExposedPorts s = [] then StatusForwarded
      else StatusReady)"
  by (simp add: update_service_alt status_conflict_scan) (simp add: status_defs)

lemma update_service_frame:
  "Name (update_service localPorts s) = Name s"
  "ExposedPorts (update_service localPorts s) = ExposedPorts s"
  "HealthStatus (update_service localPorts s) = HealthStatus s"
  by (simp_all add: update_service_alt)


lemma RemapPort_distinct:
  "distinct (Conflicts service) \<Longrightarrow>
     distinct (Conflicts (snd (snd (RemapPort d service held r l))))"
  by (simp add: RemapPort_Conflicts distinct_removeString)

section \<open>The refresh cycle\<close>

lemma GetServices_loop_services:
  "GetServices_loop lsof cs svcs s effs logs = Return (svcs', s', effs', logs') \<Longrightarrow>
   svcs' name = Some sv \<Longrightarrow>
     svcs name = Some sv \<or> (ForwardStatus sv = StatusForwarded \<and> Conflicts sv = [])"
proof (induction cs arbitrary: svcs s effs logs)
  case Nil
  then show ?case by simp
next
  case (Cons c cs)
  from Cons.prems(1) obtain n ns where names: "Names c = n # ns"
    by (cases "Names c") auto
  define service where "service = \<lparr>Name = TrimPrefix n ''/'',
        ExposedPorts = extractPorts (Ports c),
        HealthStatus = parseContainerState (State c) (Status c),
        ForwardStatus = StatusNotForwarded, LocalPorts = [], Conflicts = []\<rparr>"
  obtain err service' s1 es where fp: "forwardPorts lsof service s = (err, service', s1, es)"
    by (cases "forwardPorts lsof service s") auto
  then have sv': "service' = service\<lparr>ForwardStatus := StatusForwarded\<rparr>"
    using forwardPorts_result by blast
  from Cons.prems(1) names fp have
    "GetServices_loop lsof cs (svcs(TrimPrefix n ''/'' \<mapsto> service')) s1 (effs @ es)
        (logs @ (case err of Some e \<Rightarrow> [LogForwardPorts (TrimPrefix n ''/'') e] | None \<Rightarrow> []))
      = Return (svcs', s', effs', logs')"
    by (simp add: Let_def service_def)
  from Cons.IH [OF this Cons.prems(2)]
  have "(svcs(TrimPrefix n ''/'' \<mapsto> service')) name = Some sv \<or>
        (ForwardStatus sv = StatusForwarded \<and> Conflicts sv = [])" .
  then show ?case
    by (cases "name = TrimPrefix n ''/''") (auto simp: sv' service_def)
qed

lemma updateServices_services:
  assumes "updateServices lsof (Body cs) d = Return (d', effs, logs)"
    and "services d' name = Some sv"
  shows "ForwardStatus sv = StatusForwarded \<and> Conflicts sv = []"
proof -
  from assms(1) obtain svcs s1 where
    loop: "GetServices_loop lsof cs Map.empty (sshClient d) [] [] = Return (svcs, s1, effs, logs)"
    and d': "d' = UpdateServices (d\<lparr>sshClient := s1\<rparr>) svcs"
    by (auto simp: updateServices_def GetServices_def split: outcome.splits prod.splits sum.splits)
  from d' assms(2) have "svcs name = Some sv" by (simp add: UpdateServices_def)
  with GetServices_loop_services [OF loop] show ?thesis by auto
qed

section \<open>The service records of the engine\<close>

lemma RemapPort_services:
  "services (fst (snd (RemapPort d service held r l))) =
     (if held then (services d)(Name service \<mapsto> snd (snd (RemapPort d service held r l)))
      else services d)"
  by (simp add: RemapPort_def Let_def)

lemma RemapPort_removes_conflict:
  "distinct (Conflicts service) \<Longrightarrow>
     r \<notin> set (Conflicts (snd (snd (RemapPort d service held r l))))"
  by (simp add: RemapPort_Conflicts contains_iff removeString_removes)

lemma GetServices_services:
  assumes "GetServices lsof resp d = Return (Inr svcs, d', effs, logs)"
    and "svcs name = Some sv"
  shows "ForwardStatus sv = StatusForwarded \<and> Conflicts sv = []"
proof -
  from assms(1) obtain cs s1 where
    "GetServices_loop lsof cs Map.empty (sshClient d) [] [] = Return (svcs, s1, effs, logs)"
    by (cases resp) (auto simp: GetServices_def split: outcome.splits prod.splits)
  from GetServices_loop_services [OF this assms(2)] show ?thesis by simp
qed

lemma engine_record_distinct: "engine_record sv \<Longrightarrow> distinct (Conflicts sv)"
proof (induction rule: engine_record.induct)
  case (fetched lsof resp d svcs d' effs logs name sv)
  then show ?case using GetServices_services by fastforce
next
  case (scanned sv localPorts)
  show ?case by (rule update_service_Conflicts(2))
next
  case (remapped sv d held remotePort localPort)
  from remapped.IH show ?case by (rule RemapPort_distinct)
qed

section \<open>Exposed ports\<close>

text \<open>
  C8 (as amended). The extracted list holds exactly the decimal strings of the
  records' non-zero public ports, without duplicates, in ascending order of the
  strings (byte-wise lexicographic), which is the order of
  \<^verbatim>\<open>sort.Strings\<close>.
\<close>

theorem extractPorts_sorted_dedup:
  "sorted (extractPorts ps) \<and> distinct (extractPorts ps) \<and>
   set (extractPorts ps) = {Itoa (PublicPort p) | p. p \<in> set ps \<and> PublicPort p \<noteq> 0}"
  by (simp add: extractPorts_def sort_Strings_def set_portMap_keys distinct_portMap_keys)

text \<open>
  C8 as stated fails: for the public ports 80 and 443 the code returns 443 before
  80, and the numerically sorted list has 80 first.
\<close>

theorem extractPorts_not_numeric:
  "extractPorts [\<lparr>IP = [], PrivatePort = 80, PublicPort = 80, Type = ''tcp''\<rparr>,
                 \<lparr>IP = [], PrivatePort = 443, PublicPort = 443, Type = ''tcp''\<rparr>]
     = [''443'', ''80''] \<and>
   numerically_sorted_ports
                [\<lparr>IP = [], PrivatePort = 80, PublicPort = 80, Type = ''tcp''\<rparr>,
                 \<lparr>IP = [], PrivatePort = 443, PublicPort = 443, Type = ''tcp''\<rparr>]
     = [''80'', ''443'']"
  by (simp add: extractPorts_def numerically_sorted_ports_def sort_Strings_def
      Itoa_def digit_char_def)

section \<open>Health mapping\<close>

lemma parseContainerState_never_Unhealthy:
  "parseContainerState state status \<noteq> HealthUnhealthy"
proof (cases "state = ''running''")
  case True
  show ?thesis
  proof (cases "Contains status ''healthy''")
    case h: True
    with True show ?thesis by (simp add: parseContainerState_def health_defs)
  next
    case h: False
    then have "\<not> Contains status ''unhealthy''"
      using unhealthy_contains_healthy by blast
    with h True show ?thesis by (simp add: parseContainerState_def health_defs)
  qed
next
  case False
  then show ?thesis by (simp add: parseContainerState_def health_defs)
qed

lemma parseContainerState_running:
  assumes "\<not> Contains status ''healthy''"
  shows "parseContainerState ''running'' status = HealthRunning"
proof -
  from assms have "\<not> Contains status ''unhealthy''"
    using unhealthy_contains_healthy by blast
  with assms show ?thesis by (simp add: parseContainerState_def)
qed

lemma parseContainerState_exited: "parseContainerState ''exited'' status = HealthExited"
  by (simp add: parseContainerState_def)

lemma parseContainerState_unknown:
  "state \<noteq> ''running'' \<Longrightarrow> state \<noteq> ''created'' \<Longrightarrow> state \<noteq> ''restarting'' \<Longrightarrow>
   state \<noteq> ''removing'' \<Longrightarrow> state \<noteq> ''paused'' \<Longrightarrow> state \<noteq> ''exited'' \<Longrightarrow>
   state \<noteq> ''dead'' \<Longrightarrow> parseContainerState state status = HealthUnknown"
  unfolding parseContainerState_def by simp

text \<open>
  C3. The health mapping sends a running container whose status text contains
  "unhealthy" to Unhealthy. The code tests for "healthy" first, and every text
  that contains "unhealthy" contains "healthy": for the raw state "running" and
  the status "Up 2 minutes (unhealthy)" the result is Healthy, not Unhealthy.
\<close>

theorem parseContainerState_unhealthy_is_Healthy:
  "parseContainerState ''running'' ''Up 2 minutes (unhealthy)'' = HealthHealthy \<and>
   HealthHealthy \<noteq> HealthUnhealthy"
  by (simp add: parseContainerState_def health_defs)

section \<open>Fetching the services\<close>

text \<open>
  C9. A decoded response that holds a container record whose Names array is
  empty makes GetServices panic: no error is returned.
\<close>

theorem GetServices_panics_on_empty_Names:
  "c \<in> set cs \<Longrightarrow> Names c = [] \<Longrightarrow> GetServices lsof (Body cs) d = Panic"
  by (simp add: GetServices_def GetServices_loop_Panic)

theorem GetServices_panics_on_empty_Names_witness:
  "GetServices no_lsof (Body [web_container, db_container\<lparr>Names := []\<rparr>]) example_client = Panic"
  using GetServices_panics_on_empty_Names
    [of "db_container\<lparr>Names := []\<rparr>" "[web_container, db_container\<lparr>Names := []\<rparr>]"
        no_lsof example_client]
  by simp

text \<open>
  C6. When the poll fails (transport error or decode error), GetServices returns
  the error with the client as it was and nothing started, and the poll tick
  logs the error and returns with the client, its service map included,
  unchanged.
\<close>

theorem discovery_failure_keeps_state:
  "resp = GetFailed \<or> resp = BadBody \<Longrightarrow>
     \<exists>err. GetServices lsof resp d = Return (Inl err, d, [], []) \<and>
           updateServices lsof resp d = Return (d, [], [LogFetchServices err])"
  by (auto simp: GetServices_def updateServices_def)

theorem discovery_failure_keeps_state_witness:
  "\<exists>err. GetServices no_lsof BadBody example_client = Return (Inl err, example_client, [], []) \<and>
         updateServices no_lsof BadBody example_client
           = Return (example_client, [], [LogFetchServices err])"
  using discovery_failure_keeps_state [of BadBody no_lsof example_client] by simp

section \<open>Forward status\<close>

text \<open>
  C2 (as amended). After a poll tick that fetched the services, every service has
  the status Forwarded, with or without exposed ports: ForwardPort returns no
  error, so Error is not set, and NotForwarded does not remain. After the
  conflict scan the status of a service is Conflict when one of its exposed
  ports is in conflict, otherwise Forwarded when it has no exposed ports, and
  otherwise Ready.
\<close>

theorem refresh_forward_status:
  "(updateServices lsof (Body cs) d = Return (d', effs, logs) \<longrightarrow>
      services d' name = Some sv \<longrightarrow> ForwardStatus sv = StatusForwarded) \<and>
   (services d0 name0 = Some s0 \<longrightarrow>
      map_option ForwardStatus (services (snd (UpdateForwardingStatus (Inr localPorts) d0)) name0)
        = Some (if \<exists>p \<in> set (ExposedPorts s0). IsPortInUse p localPorts then StatusConflict
                else if ExposedPorts s0 = [] then StatusForwarded
                else StatusReady))"
proof (intro conjI impI)
  assume "updateServices lsof (Body cs) d = Return (d', effs, logs)" and "services d' name = Some sv"
  then show "ForwardStatus sv = StatusForwarded"
    using updateServices_services by blast
next
  assume "services d0 name0 = Some s0"
  then show "map_option ForwardStatus (services (snd (UpdateForwardingStatus (Inr localPorts) d0)) name0)
        = Some (if \<exists>p \<in> set (ExposedPorts s0). IsPortInUse p localPorts then StatusConflict
                else if ExposedPorts s0 = [] then StatusForwarded
                else StatusReady)"
    by (simp add: UpdateForwardingStatus_def update_service_ForwardStatus)
qed

lemma scenario_refresh:
  "updateServices no_lsof (Body [web_container, db_container]) example_client
     = Return (refreshed_client, [Spawn ''3000'' ''3000''], [])"
  by (simp add: updateServices_def GetServices_def Let_def TrimPrefix_def extractPorts_def
      sort_Strings_def Itoa_def digit_char_def parseContainerState_def forwardPorts_def
      ForwardPort_def UpdateServices_def example_client_def example_ssh_def NewDockerClient_def
      no_lsof_def web_container_def db_container_def refreshed_client_def refreshed_web_def
      refreshed_db_def)

theorem refresh_forward_status_witness:
  "updateServices no_lsof (Body [web_container, db_container]) example_client
     = Return (refreshed_client, [Spawn ''3000'' ''3000''], []) \<and>
   services refreshed_client ''db'' = Some refreshed_db \<and>
   ForwardStatus refreshed_db = StatusForwarded \<and>
   services refreshed_client ''web'' = Some refreshed_web \<and>
   map_option ForwardStatus
     (services (snd (UpdateForwardingStatus (Inr [''3000'']) refreshed_client)) ''web'')
     = Some StatusConflict"
  using refresh_forward_status
    [of no_lsof "[web_container, db_container]" example_client refreshed_client
        "[Spawn ''3000'' ''3000'']" "[]" "''db''" refreshed_db
        refreshed_client "''web''" refreshed_web "[''3000'']"]
    scenario_refresh
  by (simp add: refreshed_client_def refreshed_web_def)

text \<open>
  C2 as stated fails: after the poll tick the service db, which has no exposed
  ports, has the status Forwarded, and it keeps it through a conflict scan that
  finds no local listener.
\<close>

theorem refresh_no_ports_is_Forwarded:
  "updateServices no_lsof (Body [web_container, db_container]) example_client
     = Return (refreshed_client, [Spawn ''3000'' ''3000''], []) \<and>
   map_option ForwardStatus (services refreshed_client ''db'') = Some StatusForwarded \<and>
   map_option ForwardStatus
     (services (snd (UpdateForwardingStatus (Inr []) refreshed_client)) ''db'')
     = Some StatusForwarded \<and>
   StatusForwarded \<noteq> StatusNotForwarded"
  by (simp add: updateServices_def GetServices_def Let_def TrimPrefix_def extractPorts_def
      sort_Strings_def Itoa_def digit_char_def parseContainerState_def forwardPorts_def
      ForwardPort_def UpdateServices_def example_client_def example_ssh_def NewDockerClient_def
      no_lsof_def web_container_def db_container_def refreshed_client_def refreshed_web_def
      refreshed_db_def UpdateForwardingStatus_def update_service_def status_defs)

section \<open>Conflict detection\<close>

text \<open>
  C1 (as amended). After UpdateForwardingStatus with a local port scan, a remote
  port is in a service's conflict list exactly when it is an exposed port of the
  service and the port itself is among the scanned local ports. Neither the
  port mapping table nor the registry of the engine's own sessions is read.
\<close>

theorem UpdateForwardingStatus_conflicts:
  "services d name = Some s \<Longrightarrow>
     fst (UpdateForwardingStatus (Inr localPorts) d) = None \<and>
     (\<exists>s'. services (snd (UpdateForwardingStatus (Inr localPorts) d)) name = Some s' \<and>
           ExposedPorts s' = ExposedPorts s \<and>
           (\<forall>p. p \<in> set (Conflicts s') \<longleftrightarrow>
                  p \<in> set (ExposedPorts s) \<and> IsPortInUse p localPorts))"
  by (simp add: UpdateForwardingStatus_def update_service_Conflicts update_service_frame)

theorem UpdateForwardingStatus_conflicts_witness:
  "services conflict_client ''web'' \<noteq> None \<and>
   fst (UpdateForwardingStatus (Inr [''8080'', ''9090'']) conflict_client) = None \<and>
   (\<exists>s'. services (snd (UpdateForwardingStatus (Inr [''8080'', ''9090'']) conflict_client)) ''web''
            = Some s' \<and>
          ExposedPorts s' = [''8080'', ''9090''] \<and>
          (\<forall>p. p \<in> set (Conflicts s') \<longleftrightarrow>
                 (p = ''8080'' \<or> p = ''9090'') \<and> IsPortInUse p [''8080'', ''9090'']))"
  using UpdateForwardingStatus_conflicts
    [of conflict_client "''web''"
        conflict_web "[''8080'', ''9090'']"]
  by (simp add: conflict_client_def conflict_web_def)

text \<open>
  C1 as stated fails: with local listeners on 8080 and 9090, where 8080 is the
  local port of the engine's own session, the code reports both ports of the
  service, and the conflict set as the specification words it holds 9090 only.
\<close>

theorem UpdateForwardingStatus_reports_own_listener:
  "map_option Conflicts
     (services (snd (UpdateForwardingStatus (Inr [''8080'', ''9090'']) conflict_client)) ''web'')
     = Some [''8080'', ''9090''] \<and>
   spec_ComputeConflicts conflict_client conflict_web [''8080'', ''9090''] = {''9090''}"
proof
  show "map_option Conflicts
     (services (snd (UpdateForwardingStatus (Inr [''8080'', ''9090'']) conflict_client)) ''web'')
     = Some [''8080'', ''9090'']"
    by (simp add: UpdateForwardingStatus_def conflict_client_def conflict_web_def
        update_service_def sort_Strings_def status_defs)
next
  have m: "GetPortMapping conflict_client ''web'' r = r" for r
    by (simp add: GetPortMapping_def conflict_client_def)
  have o: "ran (ports (sshClient conflict_client)) = {''8080''}"
    by (simp add: conflict_client_def)
  show "spec_ComputeConflicts conflict_client conflict_web [''8080'', ''9090''] = {''9090''}"
    by (auto simp: spec_ComputeConflicts_def conflict_web_def m o)
qed

section \<open>Remapping a port\<close>

lemma RemapPort_frame:
  "\<not> held \<Longrightarrow> services (fst (snd (RemapPort d service held r l))) = services d"
  "name \<noteq> Name service \<Longrightarrow>
     services (fst (snd (RemapPort d service held r l))) name = services d name"
  "sshClient (fst (snd (RemapPort d service held r l))) = sshClient d"
  by (simp_all add: RemapPort_def Let_def)

lemma scenario_fetch:
  "GetServices no_lsof (Body [web_container, db_container]) example_client
     = Return (Inr [''web'' \<mapsto> refreshed_web, ''db'' \<mapsto> refreshed_db],
               example_client\<lparr>sshClient := sshClient refreshed_client\<rparr>,
               [Spawn ''3000'' ''3000''], [])"
  by (simp add: GetServices_def Let_def TrimPrefix_def extractPorts_def
      sort_Strings_def Itoa_def digit_char_def parseContainerState_def forwardPorts_def
      ForwardPort_def example_client_def example_ssh_def NewDockerClient_def
      no_lsof_def web_container_def db_container_def refreshed_client_def refreshed_web_def
      refreshed_db_def)

lemma scanned_web_eq:
  "scanned_web =
     \<lparr>Name = ''web'', ExposedPorts = [''3000''], HealthStatus = HealthRunning,
      ForwardStatus = StatusConflict, LocalPorts = [], Conflicts = [''3000'']\<rparr>"
  by (simp add: scanned_web_def update_service_def refreshed_web_def sort_Strings_def)

lemma scanned_client_web: "services scanned_client ''web'' = Some scanned_web"
  by (simp add: scanned_client_def scanned_web_def UpdateForwardingStatus_def
      refreshed_client_def)

lemma engine_record_scanned_web: "engine_record scanned_web"
proof -
  have "engine_record refreshed_web"
    by (rule engine_record.fetched [OF scenario_fetch, of "''web''"]) simp
  then show ?thesis
    unfolding scanned_web_def by (rule engine_record.scanned)
qed

text \<open>
  C7. For every service record of the engine, remote port and new local port:
  RemapPort returns no error; afterwards the remote port is not in the record's
  conflict list, also when the record is read from the client's map, which
  holds the record after the call when it held it before; and GetPortMapping
  gives the new local port for the service's name and the remote port. For a
  service name and a remote port that no RemapPort call was made for,
  GetPortMapping gives the remote port itself.
\<close>

theorem RemapPort_postcondition:
  "fst (RemapPort d service held r newLocal) = None \<and>
   (engine_record service \<longrightarrow>
      r \<notin> set (Conflicts (snd (snd (RemapPort d service held r newLocal)))) \<and>
      (held \<longrightarrow>
         (\<exists>sv. services (fst (snd (RemapPort d service held r newLocal))) (Name service) = Some sv \<and>
               sv = snd (snd (RemapPort d service held r newLocal)) \<and>
               r \<notin> set (Conflicts sv)))) \<and>
   GetPortMapping (fst (snd (RemapPort d service held r newLocal))) (Name service) r = newLocal \<and>
   ((\<forall>c \<in> set calls. (Name (fst c), fst (snd (snd c))) \<noteq> (name, r')) \<longrightarrow>
      GetPortMapping (RemapPort_seq (NewDockerClient ssh p) calls) name r' = r')"
proof (intro conjI impI)
  show "fst (RemapPort d service held r newLocal) = None" by (rule RemapPort_error)
next
  assume "engine_record service"
  then have "distinct (Conflicts service)" by (rule engine_record_distinct)
  then show "r \<notin> set (Conflicts (snd (snd (RemapPort d service held r newLocal))))"
    by (rule RemapPort_removes_conflict)
next
  assume "engine_record service" and held
  from \<open>engine_record service\<close> have "distinct (Conflicts service)"
    by (rule engine_record_distinct)
  then have "r \<notin> set (Conflicts (snd (snd (RemapPort d service held r newLocal))))"
    by (rule RemapPort_removes_conflict)
  with \<open>held\<close> show "\<exists>sv. services (fst (snd (RemapPort d service held r newLocal))) (Name service)
          = Some sv \<and>
        sv = snd (snd (RemapPort d service held r newLocal)) \<and> r \<notin> set (Conflicts sv)"
    by (simp add: RemapPort_services)
next
  show "GetPortMapping (fst (snd (RemapPort d service held r newLocal))) (Name service) r = newLocal"
    by (simp add: RemapPort_mapping)
next
  assume "\<forall>c \<in> set calls. (Name (fst c), fst (snd (snd c))) \<noteq> (name, r')"
  then show "GetPortMapping (RemapPort_seq (NewDockerClient ssh p) calls) name r' = r'"
    by (simp add: RemapPort_seq_untouched GetPortMapping_New)
qed

theorem RemapPort_postcondition_witness:
  "engine_record scanned_web \<and>
   services scanned_client ''web'' = Some scanned_web \<and>
   ''3000'' \<in> set (Conflicts scanned_web) \<and>
   fst (RemapPort scanned_client scanned_web True ''3000'' ''3001'') = None \<and>
   ''3000'' \<notin> set (Conflicts (snd (snd (RemapPort scanned_client scanned_web True ''3000'' ''3001'')))) \<and>
   (\<exists>sv. services (fst (snd (RemapPort scanned_client scanned_web True ''3000'' ''3001''))) ''web''
            = Some sv \<and>
         sv = snd (snd (RemapPort scanned_client scanned_web True ''3000'' ''3001'')) \<and>
         ''3000'' \<notin> set (Conflicts sv)) \<and>
   GetPortMapping (fst (snd (RemapPort scanned_client scanned_web True ''3000'' ''3001'')))
     ''web'' ''3000'' = ''3001'' \<and>
   GetPortMapping
     (RemapPort_seq (NewDockerClient example_ssh 40000) [(scanned_web, True, ''3000'', ''3001'')])
     ''web'' ''8080'' = ''8080''"
proof -
  have n: "Name scanned_web = ''web''" and c: "Conflicts scanned_web = [''3000'']"
    by (simp_all add: scanned_web_eq)
  show ?thesis
    using RemapPort_postcondition
      [of scanned_client scanned_web True "''3000''" "''3001''"
          "[(scanned_web, True, ''3000'', ''3001'')]" "''web''" "''8080''" example_ssh 40000]
      engine_record_scanned_web scanned_client_web
    by (simp add: n c)
qed

text \<open>
  C10. RemapPort returns no error on any input and stores the mapping it is given:
  it is not handed the local port scan and checks nothing. The check of the new
  local port against the listening ports is made by handleRemapPort, which logs
  and returns, with nothing changed, before RemapPort is called.
\<close>

theorem RemapPort_returns_nil:
  "fst (RemapPort d service held remotePort localPort) = None \<and>
   GetPortMapping (fst (snd (RemapPort d service held remotePort localPort))) (Name service)
     remotePort = localPort \<and>
   (IsPortInUse newPort localPorts \<longrightarrow>
      handleRemapPort (Inr localPorts) lsof dm port newPort = Some (dm, [], [LogPortInUse newPort]))"
  by (simp add: RemapPort_error RemapPort_mapping handleRemapPort_def)

theorem RemapPort_returns_nil_witness:
  "IsPortInUse ''9090'' [''8080'', ''9090''] \<and>
   fst (RemapPort example_client example_web False ''8080'' ''9090'') = None \<and>
   GetPortMapping (fst (snd (RemapPort example_client example_web False ''8080'' ''9090'')))
     ''web'' ''8080'' = ''9090'' \<and>
   handleRemapPort (Inr [''8080'', ''9090'']) no_lsof
       \<lparr>docker = example_client, selectedService = example_web, selectedHeld = False\<rparr>
       ''8080'' ''9090''
     = Some (\<lparr>docker = example_client, selectedService = example_web, selectedHeld = False\<rparr>,
             [], [LogPortInUse ''9090''])"
  using RemapPort_returns_nil
    [of example_client example_web False "''8080''" "''9090''" "''9090''" "[''8080'', ''9090'']"
        no_lsof "\<lparr>docker = example_client, selectedService = example_web, selectedHeld = False\<rparr>"
        "''8080''"]
  by (simp add: example_web_def)

section \<open>Tunnel sessions\<close>

lemma session_task_returns_on_error:
  "session_task remotePort (replicate n ExitOK @ ExitError # rs) s
     = (Returned, s\<lparr>ports := (ports s)(remotePort := None)\<rparr>)"
proof (induction n)
  case 0
  show ?case by (simp only: replicate.simps append_Nil session_task.simps)
next
  case (Suc n)
  then show ?case by simp
qed

lemma session_task_reruns_on_clean_exit:
  "session_task remotePort (replicate n ExitOK) s = (Running, s)"
  by (induction n) simp_all

text \<open>
  C4. A session task whose forwarding process exits with an error tries again
  and does not end. In the code the task of the registered remote port 8080,
  after one exit with an error and no other call, has returned, and the port is
  no longer in the registry.
\<close>

theorem session_task_ends_on_first_error:
  "ports (example_ssh\<lparr>ports := [''8080'' \<mapsto> ''8080'']\<rparr>) ''8080'' = Some ''8080'' \<and>
   session_task ''8080'' [ExitError] (example_ssh\<lparr>ports := [''8080'' \<mapsto> ''8080'']\<rparr>)
     = (Returned, example_ssh)"
  by (simp add: example_ssh_def)

lemma ForwardPort_idempotent:
  "ForwardPort lsof' r l (fst (snd (ForwardPort lsof r l s)))
     = (None, fst (snd (ForwardPort lsof r l s)), [])"
  by (simp add: ForwardPort_def Let_def split: option.splits)

text \<open>
  C5. ForwardPort is idempotent and keeps at most one live session per remote
  port, tearing the old session down before it starts one to another local
  port. The second call with the same arguments does nothing (lemma
  \<open>ForwardPort_idempotent\<close>). With the remote port 80 forwarded to the local port
  81 and lsof finding no process on port 80, the call for the local port 82
  kills nothing and starts a second task for the remote port 80.
\<close>

theorem ForwardPort_second_session_without_teardown:
  "ForwardPort no_lsof ''80'' ''81'' example_ssh
     = (None, example_ssh\<lparr>ports := [''80'' \<mapsto> ''81'']\<rparr>, [Spawn ''80'' ''81'']) \<and>
   ForwardPort no_lsof ''80'' ''82'' (example_ssh\<lparr>ports := [''80'' \<mapsto> ''81'']\<rparr>)
     = (None, example_ssh\<lparr>ports := [''80'' \<mapsto> ''82'']\<rparr>, [Spawn ''80'' ''82''])"
  by (simp add: ForwardPort_def Let_def no_lsof_def example_ssh_def)

end
